theory Spec2Isabelle
  imports Complex_Main
begin

section \<open>The inactivity state machine of the screensaver manager\<close>

text \<open>
  A shallow embedding of \<^verbatim>\<open>src/core/screensaver_manager.py\<close>, class
  \<^verbatim>\<open>ScreensaverManager\<close>. The object is a record, every method takes the record and
  returns the updated one. What a method reads from outside the object (the monotonic
  clock, the configuration, the connected displays, the top-level windows of the desktop,
  whether a Qt or Win32 call raises) comes in an environment record. What it sends outside
  (log lines, Qt signals, the monitor power command) is appended to a trace.

  The clock reading of \<^verbatim>\<open>time.monotonic()\<close> is a real number here, not a float. The
  handlers run one at a time: the hotkey and listener threads of the source are not
  modelled as threads. The fields \<^verbatim>\<open>config_manager\<close> and \<^verbatim>\<open>logger\<close> are the environment
  and the trace; the registration of the two hotkeys in \<^verbatim>\<open>_setup_global_hotkeys\<close> shows
  as the two hotkey events below. \<^verbatim>\<open>InactivityMonitor\<close>, which nothing instantiates, and
  \<^verbatim>\<open>_is_system_active\<close>, which nothing calls, are left out.

  Of the calls that may raise inside a \<^verbatim>\<open>try\<close> block, the model has the creation and
  showing of an overlay window, the window enumeration of the video detection, and the
  monitor power command. The calls of \<^verbatim>\<open>deactivate_screensaver\<close> (stopping a timer,
  closing a window, emitting a signal) are taken not to raise.
\<close>

subsection \<open>Data\<close>

datatype inactivity_state = IDLE | WAITING | ACTIVE

text \<open>
  The configuration values the manager reads, each optional:
  \<^verbatim>\<open>ConfigManager.get(key_path, default)\<close> returns the default when the key is absent.
\<close>

record config =
  delay_minutes :: "int option"
  check_interval_seconds :: "int option"
  enable_auto_activation :: "bool option"
  turn_off_screen_delay_minutes :: "int option"
  low_power_mode :: "bool option"

definition get :: "'a option \<Rightarrow> 'a \<Rightarrow> 'a" where
  "get v dflt = (case v of None \<Rightarrow> dflt | Some x \<Rightarrow> x)"

text \<open>A \<^verbatim>\<open>QTimer\<close>: whether it runs, its interval in milliseconds, the clock
  reading when it was last started, and whether it is single-shot.\<close>

record qtimer =
  timer_active :: bool
  timer_interval :: int
  timer_started :: real
  single_shot :: bool

definition new_timer :: qtimer where
  "new_timer = \<lparr>timer_active = False, timer_interval = 0, timer_started = 0, single_shot = False\<rparr>"

definition timer_start :: "real \<Rightarrow> int \<Rightarrow> qtimer \<Rightarrow> qtimer" where
  "timer_start t msec tm = tm\<lparr>timer_active := True, timer_interval := msec, timer_started := t\<rparr>"

definition timer_stop :: "qtimer \<Rightarrow> qtimer" where
  "timer_stop tm = tm\<lparr>timer_active := False\<rparr>"

text \<open>\<^verbatim>\<open>QTimer.setInterval\<close> restarts a running timer with the new interval.\<close>

definition timer_set_interval :: "real \<Rightarrow> int \<Rightarrow> qtimer \<Rightarrow> qtimer" where
  "timer_set_interval t msec tm =
     (if timer_active tm then tm\<lparr>timer_interval := msec, timer_started := t\<rparr>
      else tm\<lparr>timer_interval := msec\<rparr>)"

definition timer_due :: "real \<Rightarrow> qtimer \<Rightarrow> bool" where
  "timer_due t tm \<longleftrightarrow> timer_active tm \<and> timer_started tm + real_of_int (timer_interval tm) / 1000 \<le> t"

text \<open>One \<^verbatim>\<open>ScreensaverWindow\<close>: the display it covers, its redraw timer and whether it
  is shown.\<close>

record overlay =
  ov_screen :: nat
  ov_update_interval :: int
  ov_update_timer_active :: bool
  ov_shown :: bool

text \<open>A top-level window of the desktop as \<^verbatim>\<open>_is_video_playing\<close> sees it: visibility,
  the rectangle (left, top, right, bottom), and the executable name of its process
  (\<open>None\<close> when the process lookup raises).\<close>

record hwnd =
  hw_visible :: bool
  hw_rect :: "int \<times> int \<times> int \<times> int"
  hw_exe :: "string option"

datatype surface_outcome = Created | ConstructorRaises | ShowRaises

record env =
  now :: real
  cfg :: config
  screens :: "nat list"
  surface :: "nat \<Rightarrow> surface_outcome"
  desktop :: "hwnd list option"
  system_metrics :: "int \<times> int"
  power_command_ok :: bool

datatype log_line =
    PollingStarted | PollingStopped
  | StateChanged inactivity_state inactivity_state
  | Activating | ScreenOffTimerStarted int | ActivationFailed
  | Deactivating | ScreenOffTimerStopped
  | TurningOffScreen | ScreenOffSent | ScreenOffFailed
  | VideoDetectionError
  | ConfigurationUpdated | CleanupStarted | CleanupComplete

datatype signal = ScreensaverActivated | ScreensaverDeactivated | ErrorOccurred

datatype effect = Log log_line | Emit signal | MonitorPowerOff

record manager =
  state :: inactivity_state
  is_active :: bool
  screensaver_windows :: "overlay list"
  last_input_time :: real
  last_polled_time :: real
  last_media_check :: int
  media_active :: bool
  poll_timer :: qtimer
  screensaver_off_timer :: qtimer
  input_activity :: bool
  mouse_listener_running :: bool
  keyboard_listener_running :: bool
  config_updated_connected :: bool
  off_timeout_connected :: bool
  trace :: "effect list"

definition emit :: "effect \<Rightarrow> manager \<Rightarrow> manager" where
  "emit e s = s\<lparr>trace := trace s @ [e]\<rparr>"

subsection \<open>Polling\<close>

definition start_monitoring :: "env \<Rightarrow> manager \<Rightarrow> manager" where
  "start_monitoring e s =
     (let interval = get (check_interval_seconds (cfg e)) 30
      in emit (Log PollingStarted)
           (s\<lparr>poll_timer := timer_start (now e) (interval * 1000) (poll_timer s)\<rparr>))"

definition stop_monitoring :: "manager \<Rightarrow> manager" where
  "stop_monitoring s = emit (Log PollingStopped) (s\<lparr>poll_timer := timer_stop (poll_timer s)\<rparr>)"

definition set_state :: "inactivity_state \<Rightarrow> manager \<Rightarrow> manager" where
  "set_state new_state s =
     (if state s \<noteq> new_state
      then (emit (Log (StateChanged (state s) new_state)) s)\<lparr>state := new_state\<rparr>
      else s)"

text \<open>\<^verbatim>\<open>_user_is_active\<close> reads and clears the flag the input listeners set.\<close>

definition user_is_active :: "manager \<Rightarrow> bool \<times> manager" where
  "user_is_active s =
     (if input_activity s then (True, s\<lparr>input_activity := False\<rparr>) else (False, s))"

subsection \<open>Video detection\<close>

definition lower_char :: "char \<Rightarrow> char" where
  "lower_char c = (let n = (of_char c :: nat) in if 65 \<le> n \<and> n \<le> 90 then char_of (n + 32) else c)"

definition lower :: "string \<Rightarrow> string" where
  "lower nm = map lower_char nm"

definition video_apps :: "string list" where
  "video_apps =
     [''vlc.exe'', ''potplayer.exe'', ''mpc-hc.exe'', ''mpc-be.exe'', ''wmplayer.exe'',
      ''chrome.exe'', ''msedge.exe'', ''firefox.exe'', ''opera.exe'', ''brave.exe'',
      ''iexplore.exe'', ''moviesandtv.exe'', ''netflix.exe'', ''disneyplus.exe'']"

definition is_fullscreen :: "int \<times> int \<Rightarrow> hwnd \<Rightarrow> bool" where
  "is_fullscreen m h =
     (if \<not> hw_visible h then False
      else (case hw_rect h of (l, t, r, b) \<Rightarrow>
              (case m of (sw, sh) \<Rightarrow> r - l \<ge> sw - 10 \<and> b - t \<ge> sh - 40)))"

definition is_video_window :: "int \<times> int \<Rightarrow> hwnd \<Rightarrow> bool" where
  "is_video_window m h =
     (case hw_exe h of
        None \<Rightarrow> False
      | Some nm \<Rightarrow> lower nm \<in> set video_apps \<and> is_fullscreen m h)"

fun enum_windows :: "int \<times> int \<Rightarrow> hwnd list \<Rightarrow> bool \<Rightarrow> bool" where
  "enum_windows m [] found = found"
| "enum_windows m (h # hs) found =
     enum_windows m hs (if is_video_window m h then True else found)"

text \<open>\<^verbatim>\<open>_is_video_playing\<close>: when the enumeration raises, the error is logged and the
  answer is False.\<close>

definition is_video_playing :: "env \<Rightarrow> manager \<Rightarrow> bool \<times> manager" where
  "is_video_playing e s =
     (case desktop e of
        None \<Rightarrow> (False, emit (Log VideoDetectionError) s)
      | Some hs \<Rightarrow> (enum_windows (system_metrics e) hs False, s))"

subsection \<open>Activation and deactivation\<close>

definition new_window :: "env \<Rightarrow> nat \<Rightarrow> bool \<Rightarrow> overlay" where
  "new_window e sc shown =
     \<lparr>ov_screen = sc,
      ov_update_interval = (if get (low_power_mode (cfg e)) True then 5000 else 1000),
      ov_update_timer_active = True,
      ov_shown = shown\<rparr>"

text \<open>
  The loop of \<^verbatim>\<open>_activate_screensaver\<close> over \<^verbatim>\<open>app.screens()\<close>. The constructor or
  \<^verbatim>\<open>showFullScreen\<close> may raise: the loop then ends at once (\<open>Inl\<close>) with the windows
  appended so far; a window whose \<^verbatim>\<open>showFullScreen\<close> raised was appended before.
\<close>

fun create_windows :: "env \<Rightarrow> nat list \<Rightarrow> overlay list \<Rightarrow> overlay list + overlay list" where
  "create_windows e [] ws = Inr ws"
| "create_windows e (sc # scs) ws =
     (case surface e sc of
        ConstructorRaises \<Rightarrow> Inl ws
      | ShowRaises \<Rightarrow> Inl (ws @ [new_window e sc False])
      | Created \<Rightarrow> create_windows e scs (ws @ [new_window e sc True]))"

definition activate_screensaver :: "env \<Rightarrow> manager \<Rightarrow> manager" where
  "activate_screensaver e s =
     (if is_active s then s
      else
        (let s1 = emit (Log Activating) s
         in case create_windows e (screens e) (screensaver_windows s1) of
              Inl ws \<Rightarrow>
                emit (Emit ErrorOccurred)
                  (emit (Log ActivationFailed) (s1\<lparr>screensaver_windows := ws\<rparr>))
            | Inr ws \<Rightarrow>
                (let s2 = emit (Emit ScreensaverActivated)
                            (s1\<lparr>screensaver_windows := ws, is_active := True\<rparr>);
                     s3 = stop_monitoring s2;
                     turn_off_delay = get (turn_off_screen_delay_minutes (cfg e)) 0
                 in if turn_off_delay > 0
                    then emit (Log (ScreenOffTimerStarted turn_off_delay))
                           (s3\<lparr>screensaver_off_timer :=
                                 timer_start (now e) (turn_off_delay * 60 * 1000)
                                   (screensaver_off_timer s3)\<rparr>)
                    else s3)))"

text \<open>
  \<^verbatim>\<open>window.close()\<close> runs \<^verbatim>\<open>closeEvent\<close>, which stops the redraw timer of the window.
  The \<^verbatim>\<open>closed\<close> signal it emits calls \<^verbatim>\<open>deactivate_screensaver\<close> again while the outer
  call is still in its loop; the nested calls write the same values to the same fields as
  the outer one and repeat its log lines and its signal. The trace here holds one
  \<^verbatim>\<open>screensaver_deactivated\<close> for each call from outside.
\<close>

definition close_window :: "overlay \<Rightarrow> overlay" where
  "close_window w = w\<lparr>ov_update_timer_active := False, ov_shown := False\<rparr>"

definition deactivate_screensaver :: "env \<Rightarrow> manager \<Rightarrow> manager" where
  "deactivate_screensaver e s =
     (if \<not> is_active s then s
      else
        (let s1 = emit (Log Deactivating) s;
             s2 = (if timer_active (screensaver_off_timer s1)
                   then emit (Log ScreenOffTimerStopped)
                          (s1\<lparr>screensaver_off_timer := timer_stop (screensaver_off_timer s1)\<rparr>)
                   else s1);
             s3 = s2\<lparr>screensaver_windows := map close_window (screensaver_windows s2)\<rparr>;
             s4 = s3\<lparr>screensaver_windows := []\<rparr>;
             s5 = emit (Emit ScreensaverDeactivated) (s4\<lparr>is_active := False\<rparr>)
         in if get (enable_auto_activation (cfg e)) True then start_monitoring e s5 else s5))"

definition poll_inactivity :: "env \<Rightarrow> manager \<Rightarrow> manager" where
  "poll_inactivity e s =
     (let delay_seconds = get (delay_minutes (cfg e)) 5 * 60
      in case user_is_active s of
           (True, s1) \<Rightarrow>
             (let s2 = s1\<lparr>last_input_time := now e\<rparr>
              in if state s2 \<noteq> IDLE then set_state IDLE s2 else s2)
         | (False, s1) \<Rightarrow>
             (case is_video_playing e s1 of
                (True, s2) \<Rightarrow> set_state WAITING s2
              | (False, s2) \<Rightarrow>
                  if now e - last_input_time s2 \<ge> real_of_int delay_seconds
                  then (if state s2 \<noteq> ACTIVE
                        then set_state ACTIVE (activate_screensaver e s2)
                        else s2)
                  else set_state WAITING s2))"

definition turn_off_screen :: "env \<Rightarrow> manager \<Rightarrow> manager" where
  "turn_off_screen e s =
     (let s1 = emit (Log TurningOffScreen) s
      in if power_command_ok e
         then emit (Log ScreenOffSent) (emit MonitorPowerOff s1)
         else emit (Emit ErrorOccurred) (emit (Log ScreenOffFailed) s1))"

definition toggle_screensaver :: "env \<Rightarrow> manager \<Rightarrow> manager" where
  "toggle_screensaver e s =
     (if is_active s then deactivate_screensaver e s else activate_screensaver e s)"

definition on_config_updated :: "env \<Rightarrow> manager \<Rightarrow> manager" where
  "on_config_updated e s =
     (let s1 = emit (Log ConfigurationUpdated) s;
          interval = get (check_interval_seconds (cfg e)) 30;
          s2 = s1\<lparr>poll_timer := timer_set_interval (now e) (interval * 1000) (poll_timer s1)\<rparr>;
          s3 = (if get (enable_auto_activation (cfg e)) True
                then (if \<not> timer_active (poll_timer s2) then start_monitoring e s2 else s2)
                else (if timer_active (poll_timer s2) then stop_monitoring s2 else s2))
      in if timer_active (screensaver_off_timer s3)
         then (let turn_off_delay = get (turn_off_screen_delay_minutes (cfg e)) 0
               in if turn_off_delay > 0
                  then s3\<lparr>screensaver_off_timer :=
                            timer_start (now e) (turn_off_delay * 60 * 1000)
                              (screensaver_off_timer s3)\<rparr>
                  else s3\<lparr>screensaver_off_timer := timer_stop (screensaver_off_timer s3)\<rparr>)
         else s3)"

definition cleanup :: "env \<Rightarrow> manager \<Rightarrow> manager" where
  "cleanup e s =
     (let s1 = emit (Log CleanupStarted) s;
          s2 = stop_monitoring s1;
          s3 = deactivate_screensaver e s2;
          s4 = s3\<lparr>config_updated_connected := False, off_timeout_connected := False\<rparr>
      in emit (Log CleanupComplete) s4)"

text \<open>\<^verbatim>\<open>_setup_input_listeners\<close>: clears the flag and starts both listeners.\<close>

definition setup_input_listeners :: "manager \<Rightarrow> manager" where
  "setup_input_listeners s =
     s\<lparr>input_activity := False, mouse_listener_running := True,
       keyboard_listener_running := True\<rparr>"

text \<open>\<^verbatim>\<open>__init__\<close>.\<close>

definition init :: "env \<Rightarrow> manager" where
  "init e =
     (let s0 = \<lparr>state = IDLE, is_active = False, screensaver_windows = [],
                last_input_time = now e, last_polled_time = now e,
                last_media_check = 0, media_active = False,
                poll_timer = new_timer,
                screensaver_off_timer = new_timer\<lparr>single_shot := True\<rparr>,
                input_activity = False,
                mouse_listener_running = False, keyboard_listener_running = False,
                config_updated_connected = True, off_timeout_connected = True,
                trace = []\<rparr>;
          s1 = setup_input_listeners s0
      in if get (enable_auto_activation (cfg e)) True then start_monitoring e s1 else s1)"

subsection \<open>Events\<close>

text \<open>
  What can happen to the manager between two returns to the Qt event loop:
  the poll timer or the screen-off timer expires, an input listener reports an event,
  a hotkey is pressed, an overlay window receives a key or a mouse press, the
  configuration changes, the application shuts down. A timer calls its slot only when
  it is running and due; the single-shot timer stops when it fires, the poll timer
  starts its next period.
\<close>

datatype event =
    PollTimeout | ScreenOffTimeout | InputEvent
  | HotkeyToggle | HotkeyEmergencyExit | OverlayInput nat
  | ConfigUpdated | Shutdown

definition on_input :: "manager \<Rightarrow> manager" where
  "on_input s = (if mouse_listener_running s \<or> keyboard_listener_running s
                 then s\<lparr>input_activity := True\<rparr> else s)"

text \<open>
  \<^verbatim>\<open>keyPressEvent\<close> and \<^verbatim>\<open>mousePressEvent\<close> of a window close it; \<^verbatim>\<open>closeEvent\<close> stops
  its redraw timer and emits \<^verbatim>\<open>closed\<close>, which is connected to
  \<^verbatim>\<open>deactivate_screensaver\<close>.
\<close>

definition overlay_input :: "env \<Rightarrow> nat \<Rightarrow> manager \<Rightarrow> manager" where
  "overlay_input e k s =
     (if k < length (screensaver_windows s)
      then deactivate_screensaver e
             (s\<lparr>screensaver_windows :=
                  (screensaver_windows s)[k := close_window (screensaver_windows s ! k)]\<rparr>)
      else s)"

fun step :: "env \<Rightarrow> event \<Rightarrow> manager \<Rightarrow> manager" where
  "step e PollTimeout s =
     (if timer_due (now e) (poll_timer s)
      then poll_inactivity e (s\<lparr>poll_timer := (poll_timer s)\<lparr>timer_started := now e\<rparr>\<rparr>)
      else s)"
| "step e ScreenOffTimeout s =
     (if timer_due (now e) (screensaver_off_timer s)
      then (let s1 = s\<lparr>screensaver_off_timer := timer_stop (screensaver_off_timer s)\<rparr>
            in if off_timeout_connected s1 then turn_off_screen e s1 else s1)
      else s)"
| "step e InputEvent s = on_input s"
| "step e HotkeyToggle s = toggle_screensaver e s"
| "step e HotkeyEmergencyExit s = deactivate_screensaver e s"
| "step e (OverlayInput k) s = overlay_input e k s"
| "step e ConfigUpdated s = (if config_updated_connected s then on_config_updated e s else s)"
| "step e Shutdown s = cleanup e s"

fun run :: "manager \<Rightarrow> (env \<times> event) list \<Rightarrow> manager" where
  "run s [] = s"
| "run s ((e, ev) # evs) = run (step e ev s) evs"

subsection \<open>Auxiliary definitions\<close>

text \<open>
  The two results of \<^verbatim>\<open>_is_video_playing\<close> taken apart, the invariants of the runs, and
  the concrete environments of the examples below.
\<close>

definition video_found :: "env \<Rightarrow> bool" where
  "video_found e = (case desktop e of None \<Rightarrow> False
                    | Some hs \<Rightarrow> enum_windows (system_metrics e) hs False)"

definition video_log :: "env \<Rightarrow> manager \<Rightarrow> manager" where
  "video_log e s = (case desktop e of None \<Rightarrow> emit (Log VideoDetectionError) s | Some hs \<Rightarrow> s)"

definition inv_timer :: "manager \<Rightarrow> bool" where
  "inv_timer s \<longleftrightarrow> (timer_active (screensaver_off_timer s) \<longrightarrow> is_active s)"

definition power_offs :: "manager \<Rightarrow> nat" where
  "power_offs s = count_list (trace s) MonitorPowerOff"

definition env_ok :: "env \<Rightarrow> bool" where
  "env_ok e \<longleftrightarrow> screens e \<noteq> [] \<and> list_all (\<lambda>sc. surface e sc = Created) (screens e)"

definition inv_session :: "manager \<Rightarrow> bool" where
  "inv_session s \<longleftrightarrow> (screensaver_windows s \<noteq> []) = is_active s"

definition cycles :: "(nat \<Rightarrow> env) \<Rightarrow> nat \<Rightarrow> (env \<times> event) list" where
  "cycles E k = map (\<lambda>i. (E i, PollTimeout)) [1..<Suc k]"

definition waiting_inv :: "real \<Rightarrow> nat \<Rightarrow> manager \<Rightarrow> bool" where
  "waiting_inv t0 k s \<longleftrightarrow>
     state s = (if k = 0 then IDLE else WAITING) \<and> last_input_time s = t0 \<and>
     \<not> input_activity s \<and> \<not> is_active s \<and> screensaver_windows s = [] \<and>
     timer_active (poll_timer s) \<and> timer_interval (poll_timer s) = 30000 \<and>
     timer_started (poll_timer s) = t0 + 30 * real k"

definition default_config :: config where
  "default_config =
     \<lparr>delay_minutes = Some 5, check_interval_seconds = Some 30,
      enable_auto_activation = Some True, turn_off_screen_delay_minutes = None,
      low_power_mode = Some True\<rparr>"

definition desk :: "real \<Rightarrow> config \<Rightarrow> env" where
  "desk t c =
     \<lparr>now = t, cfg = c, screens = [0, 1], surface = (\<lambda>sc. Created), desktop = Some [],
      system_metrics = (1920, 1080), power_command_ok = True\<rparr>"

definition chrome_fullscreen :: hwnd where
  "chrome_fullscreen = \<lparr>hw_visible = True, hw_rect = (0, 0, 1920, 1040), hw_exe = Some ''Chrome.exe''\<rparr>"

definition first_display_fails :: "nat \<Rightarrow> surface_outcome" where
  "first_display_fails sc = (if sc = 0 then ConstructorRaises else Created)"

definition second_display_fails :: "nat \<Rightarrow> surface_outcome" where
  "second_display_fails sc = (if sc = 1 then ConstructorRaises else Created)"

definition screen_off_config :: config where
  "screen_off_config = default_config\<lparr>turn_off_screen_delay_minutes := Some 1\<rparr>"

definition cycle_env :: "nat \<Rightarrow> env" where
  "cycle_env k = desk (30 * real k) default_config"

section \<open>Properties\<close>

subsection \<open>Field lemmas and invariants\<close>

lemma emit_fields [simp]:
  "state (emit x s) = state s"
  "is_active (emit x s) = is_active s"
  "screensaver_windows (emit x s) = screensaver_windows s"
  "last_input_time (emit x s) = last_input_time s"
  "poll_timer (emit x s) = poll_timer s"
  "screensaver_off_timer (emit x s) = screensaver_off_timer s"
  "input_activity (emit x s) = input_activity s"
  "mouse_listener_running (emit x s) = mouse_listener_running s"
  "keyboard_listener_running (emit x s) = keyboard_listener_running s"
  "off_timeout_connected (emit x s) = off_timeout_connected s"
  "config_updated_connected (emit x s) = config_updated_connected s"
  "trace (emit x s) = trace s @ [x]"
  by (simp_all add: emit_def)

lemma start_monitoring_fields [simp]:
  "state (start_monitoring e s) = state s"
  "is_active (start_monitoring e s) = is_active s"
  "screensaver_windows (start_monitoring e s) = screensaver_windows s"
  "last_input_time (start_monitoring e s) = last_input_time s"
  "screensaver_off_timer (start_monitoring e s) = screensaver_off_timer s"
  "input_activity (start_monitoring e s) = input_activity s"
  "mouse_listener_running (start_monitoring e s) = mouse_listener_running s"
  "keyboard_listener_running (start_monitoring e s) = keyboard_listener_running s"
  "off_timeout_connected (start_monitoring e s) = off_timeout_connected s"
  "config_updated_connected (start_monitoring e s) = config_updated_connected s"
  "trace (start_monitoring e s) = trace s @ [Log PollingStarted]"
  "timer_active (poll_timer (start_monitoring e s))"
  by (simp_all add: start_monitoring_def Let_def timer_start_def)

lemma stop_monitoring_fields [simp]:
  "state (stop_monitoring s) = state s"
  "is_active (stop_monitoring s) = is_active s"
  "screensaver_windows (stop_monitoring s) = screensaver_windows s"
  "last_input_time (stop_monitoring s) = last_input_time s"
  "screensaver_off_timer (stop_monitoring s) = screensaver_off_timer s"
  "input_activity (stop_monitoring s) = input_activity s"
  "mouse_listener_running (stop_monitoring s) = mouse_listener_running s"
  "keyboard_listener_running (stop_monitoring s) = keyboard_listener_running s"
  "off_timeout_connected (stop_monitoring s) = off_timeout_connected s"
  "config_updated_connected (stop_monitoring s) = config_updated_connected s"
  "trace (stop_monitoring s) = trace s @ [Log PollingStopped]"
  "\<not> timer_active (poll_timer (stop_monitoring s))"
  by (simp_all add: stop_monitoring_def timer_stop_def)

lemma set_state_fields [simp]:
  "state (set_state st s) = st"
  "is_active (set_state st s) = is_active s"
  "screensaver_windows (set_state st s) = screensaver_windows s"
  "last_input_time (set_state st s) = last_input_time s"
  "poll_timer (set_state st s) = poll_timer s"
  "screensaver_off_timer (set_state st s) = screensaver_off_timer s"
  "input_activity (set_state st s) = input_activity s"
  "mouse_listener_running (set_state st s) = mouse_listener_running s"
  "keyboard_listener_running (set_state st s) = keyboard_listener_running s"
  "off_timeout_connected (set_state st s) = off_timeout_connected s"
  "config_updated_connected (set_state st s) = config_updated_connected s"
  "trace (set_state st s) =
     trace s @ (if state s = st then [] else [Log (StateChanged (state s) st)])"
  by (simp_all add: set_state_def)

lemma timer_fields [simp]:
  "timer_active (timer_start t ms tm)"
  "timer_interval (timer_start t ms tm) = ms"
  "timer_started (timer_start t ms tm) = t"
  "\<not> timer_active (timer_stop tm)"
  "timer_active (timer_set_interval t ms tm) = timer_active tm"
  by (simp_all add: timer_start_def timer_stop_def timer_set_interval_def)

lemma is_video_playing_eq: "is_video_playing e s = (video_found e, video_log e s)"
  by (simp add: is_video_playing_def video_found_def video_log_def split: option.splits)

lemma video_log_fields [simp]:
  "state (video_log e s) = state s"
  "is_active (video_log e s) = is_active s"
  "screensaver_windows (video_log e s) = screensaver_windows s"
  "last_input_time (video_log e s) = last_input_time s"
  "poll_timer (video_log e s) = poll_timer s"
  "screensaver_off_timer (video_log e s) = screensaver_off_timer s"
  "input_activity (video_log e s) = input_activity s"
  "mouse_listener_running (video_log e s) = mouse_listener_running s"
  "keyboard_listener_running (video_log e s) = keyboard_listener_running s"
  "off_timeout_connected (video_log e s) = off_timeout_connected s"
  "config_updated_connected (video_log e s) = config_updated_connected s"
  "count_list (trace (video_log e s)) MonitorPowerOff = count_list (trace s) MonitorPowerOff"
  by (simp_all add: video_log_def split: option.splits)

lemma poll_inactivity_eq:
  "poll_inactivity e s =
     (if input_activity s
      then set_state IDLE (s\<lparr>input_activity := False, last_input_time := now e\<rparr>)
      else if video_found e then set_state WAITING (video_log e s)
      else if now e - last_input_time s \<ge> real_of_int (get (delay_minutes (cfg e)) 5 * 60)
      then (if state s \<noteq> ACTIVE
            then set_state ACTIVE (activate_screensaver e (video_log e s))
            else video_log e s)
      else set_state WAITING (video_log e s))"
  by (simp add: poll_inactivity_def user_is_active_def is_video_playing_eq Let_def set_state_def)

lemma activate_inv: "inv_timer s \<Longrightarrow> inv_timer (activate_screensaver e s)"
  by (auto simp add: inv_timer_def activate_screensaver_def Let_def split: sum.splits)

lemma deactivate_disarms:
  "inv_timer s \<Longrightarrow> \<not> timer_active (screensaver_off_timer (deactivate_screensaver e s))"
  by (simp add: inv_timer_def deactivate_screensaver_def Let_def)

lemma deactivate_inv: "inv_timer s \<Longrightarrow> inv_timer (deactivate_screensaver e s)"
  using deactivate_disarms[of s e] by (simp add: inv_timer_def)

lemma poll_inv: "inv_timer s \<Longrightarrow> inv_timer (poll_inactivity e s)"
proof -
  assume i: "inv_timer s"
  have v: "inv_timer (video_log e s)" using i by (simp add: inv_timer_def)
  have a: "inv_timer (activate_screensaver e (video_log e s))" by (rule activate_inv[OF v])
  have st: "\<And>st x. inv_timer (set_state st x) = inv_timer x" by (simp add: inv_timer_def)
  have u: "inv_timer (s\<lparr>input_activity := False, last_input_time := now e\<rparr>)"
    using i by (simp add: inv_timer_def)
  show ?thesis using i v a u by (simp add: poll_inactivity_eq st)
qed

lemma config_inv: "inv_timer s \<Longrightarrow> inv_timer (on_config_updated e s)"
  by (simp add: inv_timer_def on_config_updated_def Let_def)

lemma cleanup_inv: "inv_timer s \<Longrightarrow> inv_timer (cleanup e s)"
proof -
  assume "inv_timer s"
  then have "inv_timer (stop_monitoring (emit (Log CleanupStarted) s))"
    by (simp add: inv_timer_def)
  from deactivate_inv[OF this, of e] show ?thesis
    by (simp add: inv_timer_def cleanup_def Let_def)
qed

lemma turn_off_screen_fields [simp]:
  "state (turn_off_screen e s) = state s"
  "is_active (turn_off_screen e s) = is_active s"
  "screensaver_windows (turn_off_screen e s) = screensaver_windows s"
  "last_input_time (turn_off_screen e s) = last_input_time s"
  "poll_timer (turn_off_screen e s) = poll_timer s"
  "screensaver_off_timer (turn_off_screen e s) = screensaver_off_timer s"
  by (simp_all add: turn_off_screen_def Let_def)

lemma step_inv: "inv_timer s \<Longrightarrow> inv_timer (step e ev s)"
proof (cases ev)
  case PollTimeout
  assume i: "inv_timer s"
  then have "inv_timer (s\<lparr>poll_timer := (poll_timer s)\<lparr>timer_started := now e\<rparr>\<rparr>)"
    by (simp add: inv_timer_def)
  then show ?thesis using PollTimeout i by (simp add: poll_inv)
next
  case ScreenOffTimeout
  assume "inv_timer s"
  then show ?thesis using ScreenOffTimeout
    by (simp add: inv_timer_def Let_def)
next
  case InputEvent
  assume "inv_timer s"
  then show ?thesis using InputEvent by (simp add: inv_timer_def on_input_def)
next
  case HotkeyToggle
  assume "inv_timer s"
  then show ?thesis using HotkeyToggle
    by (simp add: toggle_screensaver_def activate_inv deactivate_inv)
next
  case HotkeyEmergencyExit
  assume "inv_timer s"
  then show ?thesis using HotkeyEmergencyExit by (simp add: deactivate_inv)
next
  case (OverlayInput k)
  assume i: "inv_timer s"
  then have "inv_timer (s\<lparr>screensaver_windows :=
                  (screensaver_windows s)[k := close_window (screensaver_windows s ! k)]\<rparr>)"
    by (simp add: inv_timer_def)
  then show ?thesis using OverlayInput i
    by (simp add: overlay_input_def deactivate_inv)
next
  case ConfigUpdated
  assume "inv_timer s"
  then show ?thesis using ConfigUpdated by (simp add: config_inv)
next
  case Shutdown
  assume "inv_timer s"
  then show ?thesis using Shutdown by (simp add: cleanup_inv)
qed

lemma init_inv: "inv_timer (init e)"
  by (simp add: inv_timer_def init_def setup_input_listeners_def new_timer_def Let_def)

lemma run_inv: "inv_timer s \<Longrightarrow> inv_timer (run s evs)"
  by (induction evs arbitrary: s) (auto simp: step_inv)

lemma power_offs_emit [simp]:
  "power_offs (emit x s) = power_offs s + (if x = MonitorPowerOff then 1 else 0)"
  by (simp add: power_offs_def)

lemma power_offs_simple [simp]:
  "power_offs (start_monitoring e s) = power_offs s"
  "power_offs (stop_monitoring s) = power_offs s"
  "power_offs (set_state st s) = power_offs s"
  "power_offs (video_log e s) = power_offs s"
  by (simp_all add: power_offs_def)

lemma power_offs_update [simp]:
  "power_offs (s\<lparr>screensaver_windows := ws\<rparr>) = power_offs s"
  "power_offs (s\<lparr>is_active := b\<rparr>) = power_offs s"
  "power_offs (s\<lparr>screensaver_off_timer := tm\<rparr>) = power_offs s"
  "power_offs (s\<lparr>poll_timer := tm\<rparr>) = power_offs s"
  "power_offs (s\<lparr>input_activity := b\<rparr>) = power_offs s"
  "power_offs (s\<lparr>last_input_time := t\<rparr>) = power_offs s"
  "power_offs (s\<lparr>config_updated_connected := b\<rparr>) = power_offs s"
  "power_offs (s\<lparr>off_timeout_connected := b\<rparr>) = power_offs s"
  by (simp_all add: power_offs_def)

lemma activate_po: "power_offs (activate_screensaver e s) = power_offs s"
  by (simp add: activate_screensaver_def Let_def split: sum.splits)

lemma deactivate_po: "power_offs (deactivate_screensaver e s) = power_offs s"
  by (simp add: deactivate_screensaver_def Let_def)

lemma poll_po: "power_offs (poll_inactivity e s) = power_offs s"
  by (simp add: poll_inactivity_eq activate_po)

lemma config_po: "power_offs (on_config_updated e s) = power_offs s"
  by (simp add: on_config_updated_def Let_def)

lemma cleanup_po: "power_offs (cleanup e s) = power_offs s"
  by (simp add: cleanup_def Let_def deactivate_po)

lemma step_po:
  "power_offs (step e ev s) \<noteq> power_offs s \<Longrightarrow>
   ev = ScreenOffTimeout \<and> timer_active (screensaver_off_timer s)"
  by (cases ev)
     (simp_all add: poll_po activate_po deactivate_po config_po cleanup_po on_input_def
        toggle_screensaver_def overlay_input_def timer_due_def split: if_splits)

lemma step_active_kept: "is_active (step e ScreenOffTimeout s) = is_active s"
  by (simp add: Let_def)

lemma create_windows_all_created:
  "list_all (\<lambda>sc. surface e sc = Created) scs \<Longrightarrow>
   create_windows e scs ws = Inr (ws @ map (\<lambda>sc. new_window e sc True) scs)"
  by (induction scs arbitrary: ws) auto

lemma create_windows_first_failure:
  "list_all (\<lambda>sc. surface e sc = Created) pre \<Longrightarrow> surface e bad \<noteq> Created \<Longrightarrow>
   create_windows e (pre @ bad # post) ws =
     Inl (ws @ map (\<lambda>sc. new_window e sc True) pre
             @ (if surface e bad = ShowRaises then [new_window e bad False] else []))"
  by (induction pre arbitrary: ws) (auto split: surface_outcome.splits)

lemma activate_noop: "is_active s \<Longrightarrow> activate_screensaver e s = s"
  by (simp add: activate_screensaver_def)

lemma activate_created:
  assumes "\<not> is_active s" and "list_all (\<lambda>sc. surface e sc = Created) (screens e)"
  shows "is_active (activate_screensaver e s)"
    and "screensaver_windows (activate_screensaver e s) =
           screensaver_windows s @ map (\<lambda>sc. new_window e sc True) (screens e)"
  using assms by (simp_all add: activate_screensaver_def create_windows_all_created Let_def)

lemma activate_fields [simp]:
  "state (activate_screensaver e s) = state s"
  "last_input_time (activate_screensaver e s) = last_input_time s"
  "input_activity (activate_screensaver e s) = input_activity s"
  "mouse_listener_running (activate_screensaver e s) = mouse_listener_running s"
  "keyboard_listener_running (activate_screensaver e s) = keyboard_listener_running s"
  by (simp_all add: activate_screensaver_def Let_def split: sum.splits)

lemma deactivate_fields [simp]:
  "state (deactivate_screensaver e s) = state s"
  "last_input_time (deactivate_screensaver e s) = last_input_time s"
  "input_activity (deactivate_screensaver e s) = input_activity s"
  "mouse_listener_running (deactivate_screensaver e s) = mouse_listener_running s"
  "keyboard_listener_running (deactivate_screensaver e s) = keyboard_listener_running s"
  by (simp_all add: deactivate_screensaver_def Let_def)

lemma deactivate_ends_session:
  "\<not> is_active (deactivate_screensaver e s)"
  "is_active s \<Longrightarrow> screensaver_windows (deactivate_screensaver e s) = []"
  by (simp_all add: deactivate_screensaver_def Let_def)

lemma activate_session: "env_ok e \<Longrightarrow> inv_session s \<Longrightarrow> inv_session (activate_screensaver e s)"
proof (cases "is_active s")
  case True
  assume "inv_session s"
  then show ?thesis using True by (simp add: activate_noop)
next
  case False
  assume "env_ok e" "inv_session s"
  then show ?thesis using False activate_created[OF False, of e]
    by (simp add: inv_session_def env_ok_def)
qed

lemma deactivate_session: "inv_session s \<Longrightarrow> inv_session (deactivate_screensaver e s)"
proof (cases "is_active s")
  case True
  then show ?thesis by (simp add: inv_session_def deactivate_ends_session)
next
  case False
  assume "inv_session s"
  then show ?thesis using False by (simp add: deactivate_screensaver_def)
qed

lemma poll_session: "env_ok e \<Longrightarrow> inv_session s \<Longrightarrow> inv_session (poll_inactivity e s)"
proof -
  assume ok: "env_ok e" and i: "inv_session s"
  have v: "inv_session (video_log e s)" using i by (simp add: inv_session_def)
  have a: "inv_session (activate_screensaver e (video_log e s))" by (rule activate_session[OF ok v])
  have st: "\<And>st x. inv_session (set_state st x) = inv_session x" by (simp add: inv_session_def)
  have u: "inv_session (s\<lparr>input_activity := False, last_input_time := now e\<rparr>)"
    using i by (simp add: inv_session_def)
  show ?thesis using i v a u by (simp add: poll_inactivity_eq st)
qed

lemma step_session: "env_ok e \<Longrightarrow> inv_session s \<Longrightarrow> inv_session (step e ev s)"
proof (cases ev)
  case PollTimeout
  assume ok: "env_ok e" and i: "inv_session s"
  then have "inv_session (s\<lparr>poll_timer := (poll_timer s)\<lparr>timer_started := now e\<rparr>\<rparr>)"
    by (simp add: inv_session_def)
  then show ?thesis using PollTimeout i ok by (simp add: poll_session)
next
  case ScreenOffTimeout
  assume "inv_session s"
  then show ?thesis using ScreenOffTimeout by (simp add: inv_session_def Let_def)
next
  case InputEvent
  assume "inv_session s"
  then show ?thesis using InputEvent by (simp add: inv_session_def on_input_def)
next
  case HotkeyToggle
  assume "env_ok e" "inv_session s"
  then show ?thesis using HotkeyToggle
    by (simp add: toggle_screensaver_def activate_session deactivate_session)
next
  case HotkeyEmergencyExit
  assume "inv_session s"
  then show ?thesis using HotkeyEmergencyExit by (simp add: deactivate_session)
next
  case (OverlayInput k)
  assume i: "inv_session s"
  then have "inv_session (s\<lparr>screensaver_windows :=
                  (screensaver_windows s)[k := close_window (screensaver_windows s ! k)]\<rparr>)"
    by (simp add: inv_session_def)
  then show ?thesis using OverlayInput i
    by (simp add: overlay_input_def deactivate_session)
next
  case ConfigUpdated
  assume "inv_session s"
  then show ?thesis using ConfigUpdated by (simp add: inv_session_def on_config_updated_def Let_def)
next
  case Shutdown
  assume "inv_session s"
  then have "inv_session (stop_monitoring (emit (Log CleanupStarted) s))"
    by (simp add: inv_session_def)
  from deactivate_session[OF this, of e] show ?thesis using Shutdown
    by (simp add: inv_session_def cleanup_def Let_def)
qed

lemma run_session:
  "list_all (\<lambda>p. env_ok (fst p)) evs \<Longrightarrow> inv_session s \<Longrightarrow> inv_session (run s evs)"
  by (induction evs arbitrary: s) (auto simp: step_session)

lemma init_session: "inv_session (init e)"
  by (simp add: inv_session_def init_def setup_input_listeners_def Let_def)

lemma step_state_frame: "ev \<noteq> PollTimeout \<Longrightarrow> state (step e ev s) = state s"
  by (cases ev)
     (simp_all add: Let_def on_input_def toggle_screensaver_def overlay_input_def
        on_config_updated_def cleanup_def)

lemma run_append: "run s (xs @ ys) = run (run s xs) ys"
  by (induction xs arbitrary: s) auto

lemma cycles_Suc: "cycles E (Suc k) = cycles E k @ [(E (Suc k), PollTimeout)]"
  by (simp add: cycles_def)

lemma init_waiting:
  "get (check_interval_seconds (cfg e)) 30 = 30 \<Longrightarrow> get (enable_auto_activation (cfg e)) True \<Longrightarrow>
   waiting_inv (now e) 0 (init e)"
  by (simp add: waiting_inv_def init_def setup_input_listeners_def start_monitoring_def
        emit_def Let_def)

lemma poll_waiting:
  assumes w: "waiting_inv t0 k s" and k: "Suc k \<le> 9"
      and t: "now e = t0 + 30 * real (Suc k)"
      and d: "get (delay_minutes (cfg e)) 5 = 5"
      and v: "\<not> fst (is_video_playing e s)"
  shows "waiting_inv t0 (Suc k) (step e PollTimeout s)"
proof -
  let ?s = "s\<lparr>poll_timer := (poll_timer s)\<lparr>timer_started := now e\<rparr>\<rparr>"
  have due: "timer_due (now e) (poll_timer s)"
    using w t by (simp add: waiting_inv_def timer_due_def)
  have lt: "\<not> (real_of_int (5 * 60) \<le> now e - last_input_time ?s)"
    using w t k by (simp add: waiting_inv_def)
  have "poll_inactivity e ?s = set_state WAITING (video_log e ?s)"
    using w v d lt by (simp add: poll_inactivity_eq is_video_playing_eq waiting_inv_def)
  then show ?thesis using due w t by (simp add: waiting_inv_def)
qed

lemma cycles_waiting:
  assumes t: "\<forall>k. now (E k) = t0 + 30 * real k"
      and d: "\<forall>k. get (delay_minutes (cfg (E k))) 5 = 5"
      and i: "get (check_interval_seconds (cfg (E 0))) 30 = 30"
      and a: "get (enable_auto_activation (cfg (E 0))) True"
      and v: "\<forall>k s. \<not> fst (is_video_playing (E k) s)"
  shows "k \<le> 9 \<Longrightarrow> waiting_inv t0 k (run (init (E 0)) (cycles E k))"
proof (induction k)
  case 0
  have "now (E 0) = t0" using t by simp
  then show ?case using init_waiting[OF i a] by (simp add: cycles_def)
next
  case (Suc k)
  then have w: "waiting_inv t0 k (run (init (E 0)) (cycles E k))" by simp
  have "waiting_inv t0 (Suc k) (step (E (Suc k)) PollTimeout (run (init (E 0)) (cycles E k)))"
    using t d v by (intro poll_waiting[OF w Suc.prems]) auto
  then show ?case by (simp add: cycles_Suc run_append)
qed

lemma activate_logs: "\<not> is_active s \<Longrightarrow> Log Activating \<in> set (trace (activate_screensaver e s))"
  by (simp add: activate_screensaver_def Let_def split: sum.splits)

lemmas eval_defs = default_config_def desk_def init_def setup_input_listeners_def new_timer_def
  start_monitoring_def stop_monitoring_def emit_def set_state_def timer_start_def timer_stop_def
  timer_due_def get_def Let_def poll_inactivity_eq video_found_def video_log_def
  activate_screensaver_def deactivate_screensaver_def toggle_screensaver_def new_window_def
  close_window_def on_input_def turn_off_screen_def cleanup_def overlay_input_def

lemma chrome_is_video: "is_video_window (1920, 1080) chrome_fullscreen"
  by code_simp

subsection \<open>The claims\<close>

text \<open>
  Claim C1. A poll in which \<^verbatim>\<open>_user_is_active\<close> returns true sets \<^verbatim>\<open>last_input_time\<close>
  to the clock reading of that poll, clears the flag, leaves the state \<open>IDLE\<close> (logging the
  change when it was not \<open>IDLE\<close> before) and does nothing else: the session, both timers
  and the rest of the trace are untouched, and the result is the same in every
  environment with the same clock reading, whatever the desktop, the displays or the
  configured delay. So the state after such a poll is \<open>IDLE\<close> however much time has passed.
\<close>

theorem poll_activity_resets_to_idle:
  assumes "fst (user_is_active s)"
  shows "state (poll_inactivity e s) = IDLE
       \<and> last_input_time (poll_inactivity e s) = now e
       \<and> \<not> input_activity (poll_inactivity e s)
       \<and> is_active (poll_inactivity e s) = is_active s
       \<and> screensaver_windows (poll_inactivity e s) = screensaver_windows s
       \<and> poll_timer (poll_inactivity e s) = poll_timer s
       \<and> screensaver_off_timer (poll_inactivity e s) = screensaver_off_timer s
       \<and> trace (poll_inactivity e s) =
           trace s @ (if state s = IDLE then [] else [Log (StateChanged (state s) IDLE)])
       \<and> (now e' = now e \<longrightarrow> poll_inactivity e' s = poll_inactivity e s)"
  using assms by (simp add: poll_inactivity_eq user_is_active_def split: if_splits)

text \<open>
  An instance: after a first poll the state is \<open>WAITING\<close>, the user moves the mouse, and
  the next poll comes 1000 seconds after construction, far beyond the five minutes of delay.
\<close>

theorem poll_activity_resets_to_idle_witness:
  "fst (user_is_active (run (init (desk 0 default_config))
       [(desk 30 default_config, PollTimeout), (desk 40 default_config, InputEvent)]))
   \<and> state (run (init (desk 0 default_config))
       [(desk 30 default_config, PollTimeout), (desk 40 default_config, InputEvent)]) = WAITING
   \<and> state (poll_inactivity (desk 1000 default_config) (run (init (desk 0 default_config))
       [(desk 30 default_config, PollTimeout), (desk 40 default_config, InputEvent)])) = IDLE
   \<and> last_input_time (poll_inactivity (desk 1000 default_config) (run (init (desk 0 default_config))
       [(desk 30 default_config, PollTimeout), (desk 40 default_config, InputEvent)])) = 1000"
proof -
  let ?s = "run (init (desk 0 default_config))
       [(desk 30 default_config, PollTimeout), (desk 40 default_config, InputEvent)]"
  have h: "fst (user_is_active ?s)" by (simp add: eval_defs user_is_active_def)
  have w: "state ?s = WAITING" by (simp add: eval_defs)
  have n: "now (desk 1000 default_config) = 1000" by (simp add: desk_def)
  show ?thesis using h w n poll_activity_resets_to_idle[OF h, of "desk 1000 default_config" "desk 1000 default_config"] by simp
qed

text \<open>
  Claim C2. A poll in which \<^verbatim>\<open>_user_is_active\<close> returns false and
  \<^verbatim>\<open>_is_video_playing\<close> returns true leaves the state \<open>WAITING\<close>, never \<open>ACTIVE\<close>,
  whatever the time since the last input, and does not change \<^verbatim>\<open>last_input_time\<close>; no
  overlay is created.
\<close>

theorem poll_video_suppresses_activation:
  assumes "\<not> fst (user_is_active s)" and "fst (is_video_playing e s)"
  shows "state (poll_inactivity e s) = WAITING
       \<and> state (poll_inactivity e s) \<noteq> ACTIVE
       \<and> last_input_time (poll_inactivity e s) = last_input_time s
       \<and> is_active (poll_inactivity e s) = is_active s
       \<and> screensaver_windows (poll_inactivity e s) = screensaver_windows s"
  using assms
  by (simp add: poll_inactivity_eq is_video_playing_eq user_is_active_def split: if_splits)

text \<open>
  An instance: a visible Chrome window of 1920 by 1040 on a 1920 by 1080 screen, polled
  1000 seconds after the last input.
\<close>

theorem poll_video_suppresses_activation_witness:
  "\<not> fst (user_is_active (init (desk 0 default_config)))
   \<and> fst (is_video_playing ((desk 1000 default_config)\<lparr>desktop := Some [chrome_fullscreen]\<rparr>)
            (init (desk 0 default_config)))
   \<and> state (poll_inactivity ((desk 1000 default_config)\<lparr>desktop := Some [chrome_fullscreen]\<rparr>)
            (init (desk 0 default_config))) = WAITING
   \<and> last_input_time (poll_inactivity ((desk 1000 default_config)\<lparr>desktop := Some [chrome_fullscreen]\<rparr>)
            (init (desk 0 default_config))) = 0"
proof -
  let ?s = "init (desk 0 default_config)"
  let ?e = "(desk 1000 default_config)\<lparr>desktop := Some [chrome_fullscreen]\<rparr>"
  have h1: "\<not> fst (user_is_active ?s)" by (simp add: eval_defs user_is_active_def)
  have h2: "fst (is_video_playing ?e ?s)"
    using chrome_is_video by (simp add: is_video_playing_def desk_def)
  have l: "last_input_time ?s = 0" by (simp add: eval_defs)
  show ?thesis using h1 h2 l poll_video_suppresses_activation[OF h1 h2] by simp
qed

text \<open>
  Claim C3 says that in every reachable state \<^verbatim>\<open>screensaver_windows\<close> is non-empty
  exactly when \<^verbatim>\<open>state\<close> is \<open>ACTIVE\<close>. Both directions fail, with every display
  creating its overlay: the toggle hotkey pressed in the initial state opens the overlays
  and leaves the state \<open>IDLE\<close>; and after a poll has activated the screensaver, the
  emergency-exit hotkey closes the overlays and leaves the state \<open>ACTIVE\<close>.
\<close>

theorem session_iff_state_active_counterexample:
  "\<not> ((screensaver_windows (run (init (desk 0 default_config))
            [(desk 1 default_config, HotkeyToggle)]) \<noteq> [])
        = (state (run (init (desk 0 default_config))
            [(desk 1 default_config, HotkeyToggle)]) = ACTIVE))
   \<and> \<not> ((screensaver_windows (run (init (desk 0 default_config))
            [(desk 300 default_config, PollTimeout),
             (desk 310 default_config, HotkeyEmergencyExit)]) \<noteq> [])
        = (state (run (init (desk 0 default_config))
            [(desk 300 default_config, PollTimeout),
             (desk 310 default_config, HotkeyEmergencyExit)]) = ACTIVE))"
  by (simp add: eval_defs)

text \<open>
  Claim C3, amended. The field that follows the overlay session is \<^verbatim>\<open>is_active\<close>, not
  \<^verbatim>\<open>state\<close>: in every state reached from construction by poll and screen-off timeouts,
  input events, the two hotkeys, input on an overlay, configuration updates and shutdown,
  \<^verbatim>\<open>screensaver_windows\<close> is non-empty exactly when \<^verbatim>\<open>is_active\<close> is true, provided that
  at every event at least one display is connected and no overlay creation raises.
\<close>

theorem session_nonempty_iff_is_active:
  "list_all (\<lambda>p. env_ok (fst p)) evs \<Longrightarrow>
   (screensaver_windows (run (init e0) evs) \<noteq> []) = is_active (run (init e0) evs)"
  using run_session[OF _ init_session, of evs e0] by (simp add: inv_session_def)

text \<open>
  An instance: activation by a poll, a key press on the second overlay, then the toggle
  hotkey.
\<close>

theorem session_nonempty_iff_is_active_witness:
  "list_all (\<lambda>p. env_ok (fst p))
     [(desk 300 default_config, PollTimeout), (desk 310 default_config, OverlayInput 1),
      (desk 320 default_config, HotkeyToggle)]
   \<and> is_active (run (init (desk 0 default_config))
     [(desk 300 default_config, PollTimeout), (desk 310 default_config, OverlayInput 1),
      (desk 320 default_config, HotkeyToggle)])
   \<and> screensaver_windows (run (init (desk 0 default_config))
     [(desk 300 default_config, PollTimeout), (desk 310 default_config, OverlayInput 1),
      (desk 320 default_config, HotkeyToggle)]) \<noteq> []"
proof -
  let ?evs = "[(desk 300 default_config, PollTimeout), (desk 310 default_config, OverlayInput 1),
      (desk 320 default_config, HotkeyToggle)]"
  have h: "list_all (\<lambda>p. env_ok (fst p)) ?evs" by (simp add: env_ok_def desk_def)
  have a: "is_active (run (init (desk 0 default_config)) ?evs)" by (simp add: eval_defs)
  show ?thesis using h a session_nonempty_iff_is_active[OF h, of "desk 0 default_config"] by simp
qed

text \<open>
  Claim C4 says that a display whose overlay cannot be created is skipped, that the
  remaining displays still get theirs, that the session counts as active when at least one
  overlay exists, and that otherwise the state reverts to \<open>WAITING\<close>. With two displays
  and a poll 300 seconds after the last input: when the constructor raises for the first
  display, the second display gets no overlay and the state is not \<open>WAITING\<close>; when it
  raises for the second display, the first overlay exists and \<^verbatim>\<open>is_active\<close> is false.
\<close>

theorem activation_skips_failed_display_counterexample:
  "screensaver_windows (poll_inactivity ((desk 300 default_config)\<lparr>surface := first_display_fails\<rparr>)
       (init (desk 0 default_config))) = []
   \<and> state (poll_inactivity ((desk 300 default_config)\<lparr>surface := first_display_fails\<rparr>)
       (init (desk 0 default_config))) \<noteq> WAITING
   \<and> map ov_screen (screensaver_windows
        (poll_inactivity ((desk 300 default_config)\<lparr>surface := second_display_fails\<rparr>)
           (init (desk 0 default_config)))) = [0]
   \<and> \<not> is_active (poll_inactivity ((desk 300 default_config)\<lparr>surface := second_display_fails\<rparr>)
       (init (desk 0 default_config)))"
  by (simp add: eval_defs first_display_fails_def second_display_fails_def)

text \<open>
  Claim C4, amended. \<^verbatim>\<open>_activate_screensaver\<close> has one handler around the whole loop:
  the first display whose overlay raises ends the activation. The overlays of the displays
  before it stay in \<^verbatim>\<open>screensaver_windows\<close> (with the failing window itself when it was
  \<^verbatim>\<open>showFullScreen\<close> that raised), no later display gets an overlay, the failure is logged
  and \<^verbatim>\<open>error_occurred\<close> is emitted, \<^verbatim>\<open>is_active\<close> stays false, and neither timer nor the
  state is changed by the activation.
\<close>

theorem activation_first_failure_aborts:
  assumes "\<not> is_active s"
      and "screens e = pre @ bad # post"
      and "list_all (\<lambda>sc. surface e sc = Created) pre"
      and "surface e bad \<noteq> Created"
  shows "\<not> is_active (activate_screensaver e s)
       \<and> screensaver_windows (activate_screensaver e s) =
           screensaver_windows s @ map (\<lambda>sc. new_window e sc True) pre
             @ (if surface e bad = ShowRaises then [new_window e bad False] else [])
       \<and> trace (activate_screensaver e s) =
           trace s @ [Log Activating, Log ActivationFailed, Emit ErrorOccurred]
       \<and> poll_timer (activate_screensaver e s) = poll_timer s
       \<and> screensaver_off_timer (activate_screensaver e s) = screensaver_off_timer s
       \<and> state (activate_screensaver e s) = state s"
  using assms
  by (simp add: activate_screensaver_def create_windows_first_failure Let_def)

text \<open>An instance: three displays, the constructor raises for the second.\<close>

theorem activation_first_failure_aborts_witness:
  "\<not> is_active (init (desk 0 default_config))
   \<and> screens ((desk 300 default_config)\<lparr>screens := [0, 1, 2], surface := second_display_fails\<rparr>)
       = [0] @ 1 # [2]
   \<and> list_all (\<lambda>sc. second_display_fails sc = Created) [0]
   \<and> second_display_fails 1 \<noteq> Created
   \<and> \<not> is_active (activate_screensaver
          ((desk 300 default_config)\<lparr>screens := [0, 1, 2], surface := second_display_fails\<rparr>)
          (init (desk 0 default_config)))
   \<and> map ov_screen (screensaver_windows (activate_screensaver
          ((desk 300 default_config)\<lparr>screens := [0, 1, 2], surface := second_display_fails\<rparr>)
          (init (desk 0 default_config)))) = [0]"
proof -
  let ?e = "(desk 300 default_config)\<lparr>screens := [0, 1, 2], surface := second_display_fails\<rparr>"
  let ?s = "init (desk 0 default_config)"
  have h1: "\<not> is_active ?s" by (simp add: eval_defs)
  have h2: "screens ?e = [0] @ 1 # [2]" by (simp add: desk_def)
  have h3: "list_all (\<lambda>sc. surface ?e sc = Created) [0]" by (simp add: second_display_fails_def)
  have h4: "surface ?e 1 \<noteq> Created" by (simp add: second_display_fails_def)
  have w: "screensaver_windows ?s = []" by (simp add: eval_defs)
  show ?thesis using h1 h2 h3 h4 w activation_first_failure_aborts[OF h1 h2 h3 h4]
    by (simp add: new_window_def second_display_fails_def)
qed

text \<open>
  Claim C5. The manager is constructed at time \<open>t0\<close> with auto-activation on and a poll
  interval of 30 seconds; the poll timer fires at \<open>t0 + 30 k\<close> for \<open>k = 1, 2, \<dots>\<close>; the
  delay is 5 minutes at every poll, no input arrives and no video is detected. Then the
  state is \<open>WAITING\<close> after each of the polls 1 to 9 and \<open>ACTIVE\<close> after poll 10, which
  runs the activation; when no overlay creation raises at poll 10, the session is active
  with one overlay per connected display.
\<close>

theorem ten_cycles_to_active:
  assumes t: "\<forall>k. now (E k) = t0 + 30 * real k"
      and d: "\<forall>k. get (delay_minutes (cfg (E k))) 5 = 5"
      and i: "get (check_interval_seconds (cfg (E 0))) 30 = 30"
      and a: "get (enable_auto_activation (cfg (E 0))) True"
      and v: "\<forall>k s. \<not> fst (is_video_playing (E k) s)"
  shows "(\<forall>k\<in>{1..9}. state (run (init (E 0)) (cycles E k)) = WAITING)
       \<and> state (run (init (E 0)) (cycles E 10)) = ACTIVE
       \<and> Log Activating \<in> set (trace (run (init (E 0)) (cycles E 10)))
       \<and> (list_all (\<lambda>sc. surface (E 10) sc = Created) (screens (E 10)) \<longrightarrow>
            is_active (run (init (E 0)) (cycles E 10))
            \<and> map ov_screen (screensaver_windows (run (init (E 0)) (cycles E 10))) = screens (E 10))"
proof -
  note cw = cycles_waiting[OF t d i a v]
  have 1: "\<forall>k\<in>{1..9}. state (run (init (E 0)) (cycles E k)) = WAITING"
  proof
    fix k :: nat assume "k \<in> {1..9}"
    then have "k \<le> 9" "k \<noteq> 0" by auto
    then show "state (run (init (E 0)) (cycles E k)) = WAITING"
      using cw[of k] by (simp add: waiting_inv_def)
  qed
  define s where "s = run (init (E 0)) (cycles E 9)"
  define s' where "s' = video_log (E 10) (s\<lparr>poll_timer := (poll_timer s)\<lparr>timer_started := now (E 10)\<rparr>\<rparr>)"
  have w: "waiting_inv t0 9 s" using cw[of 9] by (simp add: s_def)
  have now10: "now (E 10) = t0 + 300" using t by simp
  have r: "run (init (E 0)) (cycles E 10) = step (E 10) PollTimeout s"
    using cycles_Suc[of E 9] by (simp add: run_append s_def)
  have due: "timer_due (now (E 10)) (poll_timer s)"
    using w now10 by (simp add: waiting_inv_def timer_due_def)
  have nv: "\<not> video_found (E 10)" using v by (simp add: is_video_playing_eq)
  have d10: "get (delay_minutes (cfg (E 10))) 5 = 5" using d by simp
  have st: "step (E 10) PollTimeout s = set_state ACTIVE (activate_screensaver (E 10) s')"
    using due w nv d10 now10 by (simp add: poll_inactivity_eq waiting_inv_def s'_def)
  have na: "\<not> is_active s'" and ws: "screensaver_windows s' = []"
    using w by (simp_all add: waiting_inv_def s'_def)
  have 2: "state (run (init (E 0)) (cycles E 10)) = ACTIVE" unfolding r st by simp
  have 3: "Log Activating \<in> set (trace (run (init (E 0)) (cycles E 10)))"
    using activate_logs[OF na, of "E 10"] unfolding r st by simp
  have 4: "list_all (\<lambda>sc. surface (E 10) sc = Created) (screens (E 10)) \<longrightarrow>
            is_active (run (init (E 0)) (cycles E 10))
            \<and> map ov_screen (screensaver_windows (run (init (E 0)) (cycles E 10))) = screens (E 10)"
    using activate_created[OF na, of "E 10"] ws unfolding r st
    by (simp add: new_window_def comp_def)
  show ?thesis using 1 2 3 4 by blast
qed

text \<open>An instance: the default configuration, two displays, an empty desktop.\<close>

theorem ten_cycles_to_active_witness:
  "(\<forall>k. now (cycle_env k) = 0 + 30 * real k)
   \<and> (\<forall>k. get (delay_minutes (cfg (cycle_env k))) 5 = 5)
   \<and> get (check_interval_seconds (cfg (cycle_env 0))) 30 = 30
   \<and> get (enable_auto_activation (cfg (cycle_env 0))) True
   \<and> (\<forall>k s. \<not> fst (is_video_playing (cycle_env k) s))
   \<and> state (run (init (cycle_env 0)) (cycles cycle_env 1)) = WAITING
   \<and> state (run (init (cycle_env 0)) (cycles cycle_env 9)) = WAITING
   \<and> state (run (init (cycle_env 0)) (cycles cycle_env 10)) = ACTIVE
   \<and> is_active (run (init (cycle_env 0)) (cycles cycle_env 10))
   \<and> map ov_screen (screensaver_windows (run (init (cycle_env 0)) (cycles cycle_env 10))) = [0, 1]"
proof -
  have t: "\<forall>k. now (cycle_env k) = 0 + 30 * real k" by (simp add: cycle_env_def desk_def)
  have d: "\<forall>k. get (delay_minutes (cfg (cycle_env k))) 5 = 5"
    by (simp add: cycle_env_def desk_def default_config_def get_def)
  have i: "get (check_interval_seconds (cfg (cycle_env 0))) 30 = 30"
    by (simp add: cycle_env_def desk_def default_config_def get_def)
  have a: "get (enable_auto_activation (cfg (cycle_env 0))) True"
    by (simp add: cycle_env_def desk_def default_config_def get_def)
  have v: "\<forall>k s. \<not> fst (is_video_playing (cycle_env k) s)"
    by (simp add: cycle_env_def desk_def is_video_playing_def)
  have sc: "screens (cycle_env 10) = [0, 1]" "surface (cycle_env 10) = (\<lambda>sc. Created)"
    by (simp_all add: cycle_env_def desk_def)
  show ?thesis using t d i a v ten_cycles_to_active[OF t d i a v] by (simp add: sc)
qed

text \<open>
  Claim C6 says that with a session already active a further activation is a no-op, so
  that two activations in a row leave exactly one overlay per connected display. The
  no-op holds, the count does not. After a toggle in which the constructor raised for the
  second of two displays, the overlay of the first display is still in
  \<^verbatim>\<open>screensaver_windows\<close> with \<^verbatim>\<open>is_active\<close> false; two activations in a row then leave
  two overlays on the first display, although the session is active at the second call.
  And when the constructor raises in both of two activations in a row, the second is no
  no-op: it adds a second overlay on the first display.
\<close>

theorem activation_twice_one_surface_counterexample:
  "is_active (activate_screensaver (desk 2 default_config)
       (run (init (desk 0 default_config))
          [((desk 1 default_config)\<lparr>surface := second_display_fails\<rparr>, HotkeyToggle)]))
   \<and> screens (desk 3 default_config) = [0, 1]
   \<and> map ov_screen (screensaver_windows
        (activate_screensaver (desk 3 default_config)
          (activate_screensaver (desk 2 default_config)
            (run (init (desk 0 default_config))
               [((desk 1 default_config)\<lparr>surface := second_display_fails\<rparr>, HotkeyToggle)]))))
       = [0, 0, 1]
   \<and> activate_screensaver ((desk 1 default_config)\<lparr>surface := second_display_fails\<rparr>)
         (activate_screensaver ((desk 1 default_config)\<lparr>surface := second_display_fails\<rparr>)
            (init (desk 0 default_config)))
       \<noteq> activate_screensaver ((desk 1 default_config)\<lparr>surface := second_display_fails\<rparr>)
            (init (desk 0 default_config))
   \<and> map ov_screen (screensaver_windows
        (activate_screensaver ((desk 1 default_config)\<lparr>surface := second_display_fails\<rparr>)
          (activate_screensaver ((desk 1 default_config)\<lparr>surface := second_display_fails\<rparr>)
            (init (desk 0 default_config)))))
       = [0, 0]"
  by (simp add: eval_defs second_display_fails_def)

text \<open>
  Claim C6, amended. When \<^verbatim>\<open>is_active\<close> is true, \<^verbatim>\<open>_activate_screensaver\<close> returns the
  manager unchanged, trace and timers included, in any environment. Two activations in a
  row, the first with no session active and with no overlay creation raising, add exactly
  one overlay per connected display to the windows that \<^verbatim>\<open>screensaver_windows\<close> held
  before; they leave exactly one overlay per connected display when it held none.
\<close>

theorem activation_idempotent:
  "(is_active s \<longrightarrow> activate_screensaver e' s = s)
 \<and> (\<not> is_active s \<and> list_all (\<lambda>sc. surface e sc = Created) (screens e)
      \<longrightarrow> activate_screensaver e' (activate_screensaver e s) = activate_screensaver e s
        \<and> screensaver_windows (activate_screensaver e' (activate_screensaver e s))
            = screensaver_windows s @ map (\<lambda>sc. new_window e sc True) (screens e)
        \<and> (screensaver_windows s = [] \<longrightarrow>
             map ov_screen (screensaver_windows (activate_screensaver e' (activate_screensaver e s)))
               = screens e))"
  using activate_created[of s e]
  by (auto simp: activate_noop new_window_def comp_def)

text \<open>An instance: two activations after construction, on two displays.\<close>

theorem activation_idempotent_witness:
  "\<not> is_active (init (desk 0 default_config))
   \<and> screensaver_windows (init (desk 0 default_config)) = []
   \<and> list_all (\<lambda>sc. surface (desk 1 default_config) sc = Created) (screens (desk 1 default_config))
   \<and> is_active (activate_screensaver (desk 1 default_config) (init (desk 0 default_config)))
   \<and> activate_screensaver (desk 2 default_config)
         (activate_screensaver (desk 1 default_config) (init (desk 0 default_config)))
       = activate_screensaver (desk 1 default_config) (init (desk 0 default_config))
   \<and> map ov_screen (screensaver_windows (activate_screensaver (desk 2 default_config)
         (activate_screensaver (desk 1 default_config) (init (desk 0 default_config))))) = [0, 1]"
proof -
  let ?s = "init (desk 0 default_config)"
  have h1: "\<not> is_active ?s" and h2: "screensaver_windows ?s = []" by (simp_all add: eval_defs)
  have h3: "list_all (\<lambda>sc. surface (desk 1 default_config) sc = Created) (screens (desk 1 default_config))"
    by (simp add: desk_def)
  have a: "is_active (activate_screensaver (desk 1 default_config) ?s)" by (simp add: eval_defs)
  have sc: "screens (desk 1 default_config) = [0, 1]" by (simp add: desk_def)
  show ?thesis
    using h1 h2 h3 a activation_idempotent[of ?s "desk 2 default_config" "desk 1 default_config"]
      activation_idempotent[of "activate_screensaver (desk 1 default_config) ?s" "desk 2 default_config" "desk 1 default_config"]
    by (simp add: sc new_window_def)
qed

text \<open>
  Claim C7. When \<^verbatim>\<open>is_active\<close> is false, \<^verbatim>\<open>deactivate_screensaver\<close> returns the manager
  unchanged: no window is closed, no timer touched, nothing logged or emitted.
\<close>

theorem deactivation_idempotent: "\<not> is_active s \<Longrightarrow> deactivate_screensaver e s = s"
  by (simp add: deactivate_screensaver_def)

text \<open>An instance: deactivation right after construction.\<close>

theorem deactivation_idempotent_witness:
  "\<not> is_active (init (desk 0 default_config))
   \<and> deactivate_screensaver (desk 1 default_config) (init (desk 0 default_config))
       = init (desk 0 default_config)"
proof -
  have h: "\<not> is_active (init (desk 0 default_config))" by (simp add: eval_defs)
  show ?thesis using h deactivation_idempotent[OF h] by simp
qed

text \<open>
  Claim C8. In every state reached from construction, whatever the events and their
  environments: after any further event, the screen-off timer is not running unless a
  session is active, so every event that ends the session leaves it disarmed; the monitor
  power command is issued by an event only when a session is active before and after it;
  and \<^verbatim>\<open>deactivate_screensaver\<close> leaves the timer disarmed.
\<close>

theorem screen_off_never_after_session:
  fixes e0 :: env and evs e ev
  defines "s \<equiv> run (init e0) evs"
  defines "s' \<equiv> step e ev s"
  shows "(\<not> is_active s' \<longrightarrow> \<not> timer_active (screensaver_off_timer s'))
       \<and> (count_list (trace s') MonitorPowerOff \<noteq> count_list (trace s) MonitorPowerOff
            \<longrightarrow> is_active s \<and> is_active s')
       \<and> \<not> timer_active (screensaver_off_timer (deactivate_screensaver e s))"
proof -
  have i: "inv_timer s" unfolding s_def by (rule run_inv[OF init_inv])
  then have i': "inv_timer s'" unfolding s'_def by (rule step_inv)
  have a: "\<not> is_active s' \<longrightarrow> \<not> timer_active (screensaver_off_timer s')"
    using i' by (auto simp: inv_timer_def)
  have b: "count_list (trace s') MonitorPowerOff \<noteq> count_list (trace s) MonitorPowerOff
            \<longrightarrow> is_active s \<and> is_active s'"
  proof
    assume "count_list (trace s') MonitorPowerOff \<noteq> count_list (trace s) MonitorPowerOff"
    then have "power_offs (step e ev s) \<noteq> power_offs s" by (simp add: power_offs_def s'_def)
    from step_po[OF this] have ev: "ev = ScreenOffTimeout"
      and "timer_active (screensaver_off_timer s)" by auto
    then have "is_active s" using i by (simp add: inv_timer_def)
    then show "is_active s \<and> is_active s'" using step_active_kept[of e s] ev
      by (simp add: s'_def)
  qed
  show ?thesis using a b deactivate_disarms[OF i] by blast
qed

text \<open>
  An instance, with a screen-off delay of one minute: the toggle hotkey arms the timer
  with 60000 ms; the emergency exit 10 seconds later ends the session and disarms it, and
  the timeout at 60 seconds then issues no power command. Without the exit, the timeout at
  60 seconds issues the command, during the session.
\<close>

theorem screen_off_never_after_session_witness:
  "is_active (run (init (desk 0 screen_off_config)) [(desk 0 screen_off_config, HotkeyToggle)])
   \<and> timer_active (screensaver_off_timer
         (run (init (desk 0 screen_off_config)) [(desk 0 screen_off_config, HotkeyToggle)]))
   \<and> timer_interval (screensaver_off_timer
         (run (init (desk 0 screen_off_config)) [(desk 0 screen_off_config, HotkeyToggle)])) = 60000
   \<and> \<not> is_active (step (desk 10 screen_off_config) HotkeyEmergencyExit
         (run (init (desk 0 screen_off_config)) [(desk 0 screen_off_config, HotkeyToggle)]))
   \<and> \<not> timer_active (screensaver_off_timer (step (desk 10 screen_off_config) HotkeyEmergencyExit
         (run (init (desk 0 screen_off_config)) [(desk 0 screen_off_config, HotkeyToggle)])))
   \<and> count_list (trace (run (init (desk 0 screen_off_config))
         [(desk 0 screen_off_config, HotkeyToggle),
          (desk 10 screen_off_config, HotkeyEmergencyExit),
          (desk 60 screen_off_config, ScreenOffTimeout)])) MonitorPowerOff = 0
   \<and> count_list (trace (step (desk 60 screen_off_config) ScreenOffTimeout
         (run (init (desk 0 screen_off_config)) [(desk 0 screen_off_config, HotkeyToggle)])))
         MonitorPowerOff = 1
   \<and> is_active (step (desk 60 screen_off_config) ScreenOffTimeout
         (run (init (desk 0 screen_off_config)) [(desk 0 screen_off_config, HotkeyToggle)]))"
proof -
  let ?s = "run (init (desk 0 screen_off_config)) [(desk 0 screen_off_config, HotkeyToggle)]"
  have a: "is_active ?s" "timer_active (screensaver_off_timer ?s)"
    "timer_interval (screensaver_off_timer ?s) = 60000"
    by (simp_all add: eval_defs screen_off_config_def)
  have b: "\<not> is_active (step (desk 10 screen_off_config) HotkeyEmergencyExit ?s)"
    by (simp add: eval_defs screen_off_config_def)
  have c: "count_list (trace (run (init (desk 0 screen_off_config))
         [(desk 0 screen_off_config, HotkeyToggle),
          (desk 10 screen_off_config, HotkeyEmergencyExit),
          (desk 60 screen_off_config, ScreenOffTimeout)])) MonitorPowerOff = 0"
    by (simp add: eval_defs screen_off_config_def)
  have d: "count_list (trace ?s) MonitorPowerOff = 0"
    "count_list (trace (step (desk 60 screen_off_config) ScreenOffTimeout ?s)) MonitorPowerOff = 1"
    by (simp_all add: eval_defs screen_off_config_def)
  show ?thesis
    using a b c d
      screen_off_never_after_session[of "desk 10 screen_off_config" HotkeyEmergencyExit "desk 0 screen_off_config"
            "[(desk 0 screen_off_config, HotkeyToggle)]"]
      screen_off_never_after_session[of "desk 60 screen_off_config" ScreenOffTimeout "desk 0 screen_off_config"
            "[(desk 0 screen_off_config, HotkeyToggle)]"]
    by simp
qed

text \<open>
  Claim C9 says that \<^verbatim>\<open>cleanup\<close> stops the poll timer and releases the mouse and keyboard
  listeners. With the default configuration and an active session, the poll timer is
  running after \<^verbatim>\<open>cleanup\<close>: it is stopped first, and \<^verbatim>\<open>deactivate_screensaver\<close> then
  starts it again. Both listeners are still running after \<^verbatim>\<open>cleanup\<close>, with or without a
  session.
\<close>

theorem cleanup_leaves_hooks_and_poll_timer:
  "timer_active (poll_timer (run (init (desk 0 default_config))
       [(desk 1 default_config, HotkeyToggle), (desk 2 default_config, Shutdown)]))
   \<and> mouse_listener_running (run (init (desk 0 default_config))
       [(desk 1 default_config, HotkeyToggle), (desk 2 default_config, Shutdown)])
   \<and> keyboard_listener_running (run (init (desk 0 default_config))
       [(desk 1 default_config, HotkeyToggle), (desk 2 default_config, Shutdown)])
   \<and> mouse_listener_running (run (init (desk 0 default_config)) [(desk 2 default_config, Shutdown)])
   \<and> keyboard_listener_running (run (init (desk 0 default_config)) [(desk 2 default_config, Shutdown)])"
  by (simp add: eval_defs)

text \<open>
  Claim C10. \<^verbatim>\<open>deactivate_screensaver\<close> changes at most \<^verbatim>\<open>is_active\<close>,
  \<^verbatim>\<open>screensaver_windows\<close>, the two timers and the trace; \<^verbatim>\<open>state\<close> and
  \<^verbatim>\<open>last_input_time\<close> keep their values. Deactivating a session in state \<open>ACTIVE\<close>
  therefore leaves the state \<open>ACTIVE\<close> with no overlay and no session, and no event other
  than a poll changes \<^verbatim>\<open>state\<close>.
\<close>

theorem deactivate_frame:
  "deactivate_screensaver e s =
     s\<lparr>is_active := is_active (deactivate_screensaver e s),
       screensaver_windows := screensaver_windows (deactivate_screensaver e s),
       poll_timer := poll_timer (deactivate_screensaver e s),
       screensaver_off_timer := screensaver_off_timer (deactivate_screensaver e s),
       trace := trace (deactivate_screensaver e s)\<rparr>
   \<and> state (deactivate_screensaver e s) = state s
   \<and> last_input_time (deactivate_screensaver e s) = last_input_time s
   \<and> (is_active s \<and> state s = ACTIVE \<longrightarrow>
        state (deactivate_screensaver e s) = ACTIVE
        \<and> screensaver_windows (deactivate_screensaver e s) = []
        \<and> \<not> is_active (deactivate_screensaver e s))
   \<and> (ev \<noteq> PollTimeout \<longrightarrow> state (step e' ev s) = state s)"
proof -
  have "deactivate_screensaver e s =
     s\<lparr>is_active := is_active (deactivate_screensaver e s),
       screensaver_windows := screensaver_windows (deactivate_screensaver e s),
       poll_timer := poll_timer (deactivate_screensaver e s),
       screensaver_off_timer := screensaver_off_timer (deactivate_screensaver e s),
       trace := trace (deactivate_screensaver e s)\<rparr>"
    by (simp add: deactivate_screensaver_def Let_def emit_def start_monitoring_def)
  then show ?thesis
    using step_state_frame[of ev e' s] by (simp add: deactivate_ends_session)
qed

text \<open>An instance: a session activated by a poll, ended by the emergency exit.\<close>

theorem deactivate_frame_witness:
  "is_active (step (desk 300 default_config) PollTimeout (init (desk 0 default_config)))
   \<and> state (step (desk 300 default_config) PollTimeout (init (desk 0 default_config))) = ACTIVE
   \<and> HotkeyEmergencyExit \<noteq> PollTimeout
   \<and> state (deactivate_screensaver (desk 310 default_config)
        (step (desk 300 default_config) PollTimeout (init (desk 0 default_config)))) = ACTIVE
   \<and> screensaver_windows (deactivate_screensaver (desk 310 default_config)
        (step (desk 300 default_config) PollTimeout (init (desk 0 default_config)))) = []
   \<and> state (step (desk 310 default_config) HotkeyEmergencyExit
        (step (desk 300 default_config) PollTimeout (init (desk 0 default_config)))) = ACTIVE"
proof -
  let ?s = "step (desk 300 default_config) PollTimeout (init (desk 0 default_config))"
  have h: "is_active ?s" "state ?s = ACTIVE" by (simp_all add: eval_defs)
  show ?thesis
    using h deactivate_frame[of "desk 310 default_config" ?s HotkeyEmergencyExit "desk 310 default_config"]
    by simp
qed

end
